theory Spec2Isabelle
  imports Main
begin

section \<open>Go values shared by the packages\<close>

text \<open>
  A Go \<open>error\<close> is either created from a message (\<open>errors.New\<close>, \<open>fmt.Errorf\<close>) or wraps
  another error under a label (\<open>errors.Wrap\<close>). A nil error is \<open>None\<close> of
  \<open>go_error option\<close>.
\<close>

datatype go_error = ErrorNew string | ErrorWrap go_error string

fun ErrorMessage :: "go_error \<Rightarrow> string" where
  "ErrorMessage (ErrorNew msg) = msg"
| "ErrorMessage (ErrorWrap e msg) = msg @ '': '' @ ErrorMessage e"

text \<open>\<open>errors.Wrap\<close> of github.com/pkg/errors returns nil when the wrapped error is nil.\<close>

definition Wrap :: "go_error option \<Rightarrow> string \<Rightarrow> go_error option" where
  "Wrap err msg = (case err of None \<Rightarrow> None | Some e \<Rightarrow> Some (ErrorWrap e msg))"

section \<open>apis/instance/v1alpha1: the desired and observed shapes\<close>

text \<open>
  A Go pointer field (\<open>*bool\<close>, \<open>*string\<close>) is an \<open>option\<close>: \<open>None\<close> is nil. Field names
  carry a short prefix of their struct, since several structs have a \<open>Name\<close> or an \<open>Error\<close>.
\<close>

record QualityGateParameters =
  qgp_Name :: string
  qgp_Default :: "bool option"

record QualityGatesActions =
  act_AssociateProjects :: bool
  act_Copy :: bool
  act_Delegate :: bool
  act_Delete :: bool
  act_ManageAiCodeAssurance :: bool
  act_ManageConditions :: bool
  act_Rename :: bool
  act_SetAsDefault :: bool

record QualityGateConditionObservation =
  qgco_Error :: string
  qgco_ID :: string
  qgco_Metric :: string
  qgco_Op :: string

record QualityGateObservation =
  qgo_Actions :: QualityGatesActions
  qgo_CaycStatus :: string
  qgo_Conditions :: "QualityGateConditionObservation list"
  qgo_IsAiCodeSupported :: bool
  qgo_IsBuiltIn :: bool
  qgo_IsDefault :: bool
  qgo_Name :: string

text \<open>
  \<open>xpv1.NamespacedReference\<close> and \<open>xpv1.NamespacedSelector\<close> belong to crossplane-runtime;
  no function of this repository reads inside them, so only their identifying fields are kept.
\<close>

record NamespacedReference =
  ref_Name :: string
  ref_Namespace :: string

record NamespacedSelector =
  sel_MatchLabels :: "(string \<times> string) list"
  sel_Namespace :: string

record QualityGateConditionParameters =
  qgcp_QualityGateName :: "string option"
  qgcp_QualityGateRef :: "NamespacedReference option"
  qgcp_QualityGateSelector :: "NamespacedSelector option"
  qgcp_Error :: string
  qgcp_Metric :: string
  qgcp_Op :: "string option"

section \<open>The remote client's request and response types (sonargo)\<close>

record QualitygatesShowObject_sub1 =
  sub1_AssociateProjects :: bool
  sub1_Copy :: bool
  sub1_Delegate :: bool
  sub1_Delete :: bool
  sub1_ManageAiCodeAssurance :: bool
  sub1_ManageConditions :: bool
  sub1_Rename :: bool
  sub1_SetAsDefault :: bool

record QualitygatesShowObject_sub2 =
  sub2_Error :: string
  sub2_ID :: string
  sub2_Metric :: string
  sub2_Op :: string

record QualitygatesShowObject =
  show_Actions :: QualitygatesShowObject_sub1
  show_CaycStatus :: string
  show_Conditions :: "QualitygatesShowObject_sub2 list"
  show_IsAiCodeSupported :: bool
  show_IsBuiltIn :: bool
  show_IsDefault :: bool
  show_Name :: string

record QualitygatesCreateObject =
  created_ID :: string
  created_Name :: string

record QualitygatesCreateConditionObject =
  createdcond_ID :: string
  createdcond_Error :: string
  createdcond_Metric :: string
  createdcond_Op :: string

record QualitygatesCreateConditionOption =
  cco_GateName :: string
  cco_Error :: string
  cco_Metric :: string
  cco_Op :: string

record QualitygatesUpdateConditionOption =
  uco_Id :: string
  uco_Error :: string
  uco_Metric :: string
  uco_Op :: string

section \<open>internal/helpers\<close>

text \<open>
  Modelled from the spec: \<open>helpers.IsComparablePtrEqualComparable\<close> is not among the sources.
  The spec (4.1) says of an optional desired field that "a match against the observed
  counterpart is required only if the desired field is set", the set value being compared
  "against the literal observed value", and that "an unset optional field is treated as
  don't care and always matches". The package's tests \<open>NilOpMatchesAnyObservedOp\<close> and
  \<open>DifferentOpReturnsFalse\<close> agree.
\<close>

definition IsComparablePtrEqualComparable :: "'a option \<Rightarrow> 'a \<Rightarrow> bool" where
  "IsComparablePtrEqualComparable ptr val = (case ptr of None \<Rightarrow> True | Some p \<Rightarrow> p = val)"

text \<open>
  Modelled from the spec: \<open>helpers.AssignIfNil\<close> is not among the sources. The spec (4.2)
  says "for each optional field in DesiredSpecification that is unset, assign the
  corresponding value from ObservedState. Already-set fields are never overwritten". The
  function receives the address of the field; the model returns the field's new content.
  The package's tests \<open>NilOpGetsInitialized\<close> and \<open>ExistingOpNotOverwritten\<close> agree.
\<close>

definition AssignIfNil :: "'a option \<Rightarrow> 'a \<Rightarrow> 'a option" where
  "AssignIfNil ptr val = (case ptr of None \<Rightarrow> Some val | Some p \<Rightarrow> Some p)"

section \<open>internal/clients/instance: quality gates\<close>

text \<open>The create option has the single field \<open>Name\<close>; it is modelled by that string.\<close>

definition GenerateQualityGateCreateOptions :: "QualityGateParameters \<Rightarrow> string" where
  "GenerateQualityGateCreateOptions spec = qgp_Name spec"

definition GenerateQualityGateActionsObservation ::
  "QualitygatesShowObject_sub1 \<Rightarrow> QualityGatesActions" where
  "GenerateQualityGateActionsObservation actions =
     \<lparr> act_AssociateProjects = sub1_AssociateProjects actions,
       act_Copy = sub1_Copy actions,
       act_Delegate = sub1_Delegate actions,
       act_Delete = sub1_Delete actions,
       act_ManageAiCodeAssurance = sub1_ManageAiCodeAssurance actions,
       act_ManageConditions = sub1_ManageConditions actions,
       act_Rename = sub1_Rename actions,
       act_SetAsDefault = sub1_SetAsDefault actions \<rparr>"

definition GenerateQualityGateConditionObservation ::
  "QualitygatesShowObject_sub2 \<Rightarrow> QualityGateConditionObservation" where
  "GenerateQualityGateConditionObservation condition =
     \<lparr> qgco_Error = sub2_Error condition,
       qgco_ID = sub2_ID condition,
       qgco_Metric = sub2_Metric condition,
       qgco_Op = sub2_Op condition \<rparr>"

text \<open>The loop fills a slice of the input's length, element by element: a \<open>map\<close>.\<close>

definition GenerateQualityGateConditionsObservation ::
  "QualitygatesShowObject_sub2 list \<Rightarrow> QualityGateConditionObservation list" where
  "GenerateQualityGateConditionsObservation conditions =
     map GenerateQualityGateConditionObservation conditions"

definition GenerateQualityGateObservation ::
  "QualitygatesShowObject \<Rightarrow> QualityGateObservation" where
  "GenerateQualityGateObservation observation =
     \<lparr> qgo_Actions = GenerateQualityGateActionsObservation (show_Actions observation),
       qgo_CaycStatus = show_CaycStatus observation,
       qgo_Conditions = GenerateQualityGateConditionsObservation (show_Conditions observation),
       qgo_IsAiCodeSupported = show_IsAiCodeSupported observation,
       qgo_IsBuiltIn = show_IsBuiltIn observation,
       qgo_IsDefault = show_IsDefault observation,
       qgo_Name = show_Name observation \<rparr>"

text \<open>
  The comparators and late initializers take pointers to both structs; a nil pointer is
  \<open>None\<close>. A late initializer mutates the struct behind its first pointer: the model returns
  that struct's content after the call (\<open>None\<close> when the pointer is nil, there being no
  struct).
\<close>

definition IsQualityGateUpToDate ::
  "QualityGateParameters option \<Rightarrow> QualityGateObservation option \<Rightarrow> bool" where
  "IsQualityGateUpToDate spec observation =
     (case spec of
        None \<Rightarrow> True
      | Some s \<Rightarrow>
          (case observation of
             None \<Rightarrow> False
           | Some ob \<Rightarrow>
               if qgp_Name s \<noteq> qgo_Name ob then False
               else if \<not> IsComparablePtrEqualComparable (qgp_Default s) (qgo_IsDefault ob)
                 then False
               else True))"

definition LateInitializeQualityGate ::
  "QualityGateParameters option \<Rightarrow> QualityGateObservation option
     \<Rightarrow> QualityGateParameters option" where
  "LateInitializeQualityGate spec observation =
     (case spec of
        None \<Rightarrow> None
      | Some s \<Rightarrow>
          (case observation of
             None \<Rightarrow> Some s
           | Some ob \<Rightarrow>
               Some (s\<lparr>qgp_Default := AssignIfNil (qgp_Default s) (qgo_IsDefault ob)\<rparr>)))"

section \<open>internal/clients/instance: quality gate conditions\<close>

definition errConditionNotFound :: string where
  "errConditionNotFound = ''quality gate condition not found in observation''"

definition zeroQualityGateConditionObservation :: QualityGateConditionObservation where
  "zeroQualityGateConditionObservation =
     \<lparr> qgco_Error = [], qgco_ID = [], qgco_Metric = [], qgco_Op = [] \<rparr>"

text \<open>
  The \<open>for ... range\<close> loop returns from inside at the first element whose ID is the one
  sought; after the loop the zero observation and an error are returned.
\<close>

fun FindQualityGateConditionObservation ::
  "string \<Rightarrow> QualitygatesShowObject_sub2 list
     \<Rightarrow> QualityGateConditionObservation \<times> go_error option" where
  "FindQualityGateConditionObservation ident [] =
     (zeroQualityGateConditionObservation, Some (ErrorNew errConditionNotFound))"
| "FindQualityGateConditionObservation ident (cond # rest) =
     (if sub2_ID cond = ident then (GenerateQualityGateConditionObservation cond, None)
      else FindQualityGateConditionObservation ident rest)"

text \<open>
  \<open>*params.QualityGateName\<close> is dereferenced while the option struct is built: on a nil
  pointer the function panics, which is the result \<open>None\<close>. An unset \<open>Op\<close> leaves the
  option's \<open>Op\<close> at the zero string.
\<close>

definition GenerateCreateQualityGateConditionOption ::
  "QualityGateConditionParameters \<Rightarrow> QualitygatesCreateConditionOption option" where
  "GenerateCreateQualityGateConditionOption params =
     (case qgcp_QualityGateName params of
        None \<Rightarrow> None
      | Some gateName \<Rightarrow>
          Some \<lparr> cco_GateName = gateName,
                 cco_Error = qgcp_Error params,
                 cco_Metric = qgcp_Metric params,
                 cco_Op = (case qgcp_Op params of None \<Rightarrow> [] | Some op \<Rightarrow> op) \<rparr>)"

definition GenerateUpdateQualityGateConditionOption ::
  "string \<Rightarrow> QualityGateConditionParameters \<Rightarrow> QualitygatesUpdateConditionOption" where
  "GenerateUpdateQualityGateConditionOption ident params =
     \<lparr> uco_Id = ident,
       uco_Error = qgcp_Error params,
       uco_Metric = qgcp_Metric params,
       uco_Op = (case qgcp_Op params of None \<Rightarrow> [] | Some op \<Rightarrow> op) \<rparr>"

text \<open>The delete option has the single field \<open>Id\<close>; it is modelled by that string.\<close>

definition GenerateDeleteQualityGateConditionOption :: "string \<Rightarrow> string" where
  "GenerateDeleteQualityGateConditionOption ident = ident"

definition IsQualityGateConditionUpToDate ::
  "QualityGateConditionParameters option \<Rightarrow> QualityGateConditionObservation option \<Rightarrow> bool" where
  "IsQualityGateConditionUpToDate params observation =
     (case params of
        None \<Rightarrow> True
      | Some p \<Rightarrow>
          (case observation of
             None \<Rightarrow> False
           | Some ob \<Rightarrow>
               if qgcp_Error p \<noteq> qgco_Error ob then False
               else if qgcp_Metric p \<noteq> qgco_Metric ob then False
               else if \<not> IsComparablePtrEqualComparable (qgcp_Op p) (qgco_Op ob) then False
               else True))"

definition LateInitializeQualityGateCondition ::
  "QualityGateConditionParameters option \<Rightarrow> QualityGateConditionObservation option
     \<Rightarrow> QualityGateConditionParameters option" where
  "LateInitializeQualityGateCondition params observation =
     (case params of
        None \<Rightarrow> None
      | Some p \<Rightarrow>
          (case observation of
             None \<Rightarrow> Some p
           | Some ob \<Rightarrow> Some (p\<lparr>qgcp_Op := AssignIfNil (qgcp_Op p) (qgco_Op ob)\<rparr>)))"

section \<open>The remote client and the calls issued on it\<close>

record QualitygatesRenameOption =
  ren_CurrentName :: string
  ren_Name :: string

text \<open>
  Of the interface \<open>QualityGatesClient\<close> the controllers use eight methods. The remote system
  is a state \<open>'s\<close> that each method may read and change. A method returning
  \<open>(v, resp, err)\<close> is modelled by the pair of \<open>v\<close> (a pointer, \<open>None\<close> when nil) and
  \<open>err\<close>; the HTTP response is only ever closed (\<open>helpers.CloseBody\<close>) and is left out.
  The single-field options (\<open>Name\<close> or \<open>Id\<close>) are modelled by that field.
\<close>

record 's QualityGatesClient =
  client_Create ::
    "string \<Rightarrow> 's \<Rightarrow> (QualitygatesCreateObject option \<times> go_error option) \<times> 's"
  client_CreateCondition ::
    "QualitygatesCreateConditionOption \<Rightarrow> 's
       \<Rightarrow> (QualitygatesCreateConditionObject option \<times> go_error option) \<times> 's"
  client_DeleteCondition :: "string \<Rightarrow> 's \<Rightarrow> go_error option \<times> 's"
  client_Destroy :: "string \<Rightarrow> 's \<Rightarrow> go_error option \<times> 's"
  client_Rename :: "QualitygatesRenameOption \<Rightarrow> 's \<Rightarrow> go_error option \<times> 's"
  client_SetAsDefault :: "string \<Rightarrow> 's \<Rightarrow> go_error option \<times> 's"
  client_Show ::
    "string \<Rightarrow> 's \<Rightarrow> (QualitygatesShowObject option \<times> go_error option) \<times> 's"
  client_UpdateCondition ::
    "QualitygatesUpdateConditionOption \<Rightarrow> 's \<Rightarrow> go_error option \<times> 's"

datatype call =
    CallCreate string
  | CallCreateCondition QualitygatesCreateConditionOption
  | CallDeleteCondition string
  | CallDestroy string
  | CallRename QualitygatesRenameOption
  | CallSetAsDefault string
  | CallShow string
  | CallUpdateCondition QualitygatesUpdateConditionOption

text \<open>
  The world outside the managed resource: the remote state, and the remote calls issued so
  far, oldest first.
\<close>

record 's world =
  remote :: 's
  calls :: "call list"

definition invoke :: "call \<Rightarrow> ('s \<Rightarrow> 'r \<times> 's) \<Rightarrow> 's world \<Rightarrow> 'r \<times> 's world" where
  "invoke cl method w =
     (case method (remote w) of
        (r, s) \<Rightarrow> (r, \<lparr> remote = s, calls = calls w @ [cl] \<rparr>))"

text \<open>
  An operation either returns, or panics on a nil dereference; a panic keeps the calls
  issued before it.
\<close>

datatype 'a exec = Panics "call list" | Returns 'a

section \<open>Managed resources\<close>

text \<open>
  Status conditions and the external-name annotation come from crossplane-runtime.
  \<open>Available\<close>, \<open>Creating\<close> and \<open>Deleting\<close> are all conditions of type Ready;
  \<open>SetConditions\<close> replaces the stored condition of the same type or appends.
\<close>

datatype ConditionType = TypeReady | TypeSynced

datatype ConditionReason = ReasonAvailable | ReasonCreating | ReasonDeleting | ReasonOther string

record Condition =
  cond_Type :: ConditionType
  cond_Status :: bool
  cond_Reason :: ConditionReason

definition Available :: Condition where
  "Available = \<lparr> cond_Type = TypeReady, cond_Status = True, cond_Reason = ReasonAvailable \<rparr>"

definition Creating :: Condition where
  "Creating = \<lparr> cond_Type = TypeReady, cond_Status = False, cond_Reason = ReasonCreating \<rparr>"

definition Deleting :: Condition where
  "Deleting = \<lparr> cond_Type = TypeReady, cond_Status = False, cond_Reason = ReasonDeleting \<rparr>"

definition SetConditions :: "Condition list \<Rightarrow> Condition \<Rightarrow> Condition list" where
  "SetConditions cs c =
     (case find (\<lambda>x. cond_Type x = cond_Type c) cs of
        None \<Rightarrow> cs @ [c]
      | Some _ \<Rightarrow> map (\<lambda>x. if cond_Type x = cond_Type c then c else x) cs)"

definition AnnotationKeyExternalName :: string where
  "AnnotationKeyExternalName = ''crossplane.io/external-name''"

definition GetExternalName :: "(string \<Rightarrow> string option) \<Rightarrow> string" where
  "GetExternalName annotations =
     (case annotations AnnotationKeyExternalName of None \<Rightarrow> [] | Some v \<Rightarrow> v)"

definition SetExternalName ::
  "(string \<Rightarrow> string option) \<Rightarrow> string \<Rightarrow> (string \<Rightarrow> string option)" where
  "SetExternalName annotations name = annotations(AnnotationKeyExternalName \<mapsto> name)"

text \<open>
  A managed resource as the controllers read and write it: \<open>ObjectMeta.Name\<close> (the
  Kubernetes resource name), \<open>ObjectMeta.Annotations\<close>, \<open>Spec.ForProvider\<close>,
  \<open>Status.AtProvider\<close> and \<open>Status.Conditions\<close>.
\<close>

record QualityGate =
  qg_Name :: string
  qg_Annotations :: "string \<Rightarrow> string option"
  qg_ForProvider :: QualityGateParameters
  qg_AtProvider :: QualityGateObservation
  qg_Conditions :: "Condition list"

record QualityGateCondition =
  qgc_Name :: string
  qgc_Annotations :: "string \<Rightarrow> string option"
  qgc_ForProvider :: QualityGateConditionParameters
  qgc_AtProvider :: QualityGateConditionObservation
  qgc_Conditions :: "Condition list"

text \<open>
  \<open>resource.Managed\<close> is an interface; the type assertion at the head of every operation
  tells the expected kind from any other.
\<close>

datatype managed =
    MgQualityGate QualityGate
  | MgQualityGateCondition QualityGateCondition
  | MgOther

record ExternalObservation =
  ResourceExists :: bool
  ResourceUpToDate :: bool
  ResourceLateInitialized :: bool

definition zeroExternalObservation :: ExternalObservation where
  "zeroExternalObservation =
     \<lparr> ResourceExists = False, ResourceUpToDate = False, ResourceLateInitialized = False \<rparr>"

section \<open>internal/controller/qualitygate\<close>

definition errNotQualityGate :: string where
  "errNotQualityGate = ''managed resource is not a QualityGate custom resource''"

definition errCreateQualityGate :: string where
  "errCreateQualityGate = ''cannot create SonarQube Quality Gate''"

definition errDefaultQualityGate :: string where
  "errDefaultQualityGate = ''cannot set SonarQube Quality Gate as default''"

definition errUpdateQualityGate :: string where
  "errUpdateQualityGate = ''cannot update SonarQube Quality Gate''"

definition errDeleteQualityGate :: string where
  "errDeleteQualityGate = ''cannot delete SonarQube Quality Gate''"

definition errShowQualityGate :: string where
  "errShowQualityGate = ''cannot get SonarQube Quality Gate''"

text \<open>
  Every operation takes the client, the managed resource and the world, and returns its
  error, the managed resource as it has mutated it, and the world. \<open>Observe\<close> returns its
  \<open>ExternalObservation\<close> as well; the structs \<open>ExternalCreation\<close>, \<open>ExternalUpdate\<close> and
  \<open>ExternalDelete\<close> are returned empty on every path and are left out.

  \<open>&cr.Spec.ForProvider\<close> and \<open>&cr.Status.AtProvider\<close> are addresses of fields and never
  nil, so the late initializer always hands back a struct; \<open>cmp.Equal\<close> on the copy taken
  before is equality of the two structs.
\<close>

definition qualitygate_Observe ::
  "'s QualityGatesClient \<Rightarrow> managed \<Rightarrow> 's world
     \<Rightarrow> (ExternalObservation \<times> go_error option \<times> managed \<times> 's world) exec" where
  "qualitygate_Observe c mg w =
     (case mg of
        MgQualityGate cr \<Rightarrow>
          (let externalName = GetExternalName (qg_Annotations cr) in
           if externalName = [] then
             Returns (zeroExternalObservation\<lparr>ResourceExists := False\<rparr>, None, mg, w)
           else
             (case invoke (CallShow externalName) (client_Show c externalName) w of
                ((qualityGate, err), w1) \<Rightarrow>
                  if err \<noteq> None then
                    Returns (zeroExternalObservation\<lparr>ResourceExists := False\<rparr>,
                             Wrap err errShowQualityGate, mg, w1)
                  else
                    (case qualityGate of
                       None \<Rightarrow> Panics (calls w1)
                     | Some qg \<Rightarrow>
                         (let cr1 = cr\<lparr>qg_AtProvider := GenerateQualityGateObservation qg\<rparr>;
                              cr2 = cr1\<lparr>qg_Conditions := SetConditions (qg_Conditions cr1) Available\<rparr>;
                              current = qg_ForProvider cr2;
                              cr3 = (case LateInitializeQualityGate (Some (qg_ForProvider cr2))
                                            (Some (qg_AtProvider cr2)) of
                                       None \<Rightarrow> cr2
                                     | Some spec \<Rightarrow> cr2\<lparr>qg_ForProvider := spec\<rparr>)
                          in Returns
                               (\<lparr> ResourceExists = True,
                                  ResourceUpToDate =
                                    IsQualityGateUpToDate (Some (qg_ForProvider cr3))
                                      (Some (qg_AtProvider cr3)),
                                  ResourceLateInitialized = (current \<noteq> qg_ForProvider cr3) \<rparr>,
                                None, MgQualityGate cr3, w1)))))
      | _ \<Rightarrow> Returns (zeroExternalObservation, Some (ErrorNew errNotQualityGate), mg, w))"

definition qualitygate_Create ::
  "'s QualityGatesClient \<Rightarrow> managed \<Rightarrow> 's world
     \<Rightarrow> (go_error option \<times> managed \<times> 's world) exec" where
  "qualitygate_Create c mg w =
     (case mg of
        MgQualityGate cr \<Rightarrow>
          (let cr1 = cr\<lparr>qg_Conditions := SetConditions (qg_Conditions cr) Creating\<rparr>;
               qualityGateCreateOptions = GenerateQualityGateCreateOptions (qg_ForProvider cr1)
           in
             (case invoke (CallCreate qualityGateCreateOptions)
                     (client_Create c qualityGateCreateOptions) w of
                ((qualityGate, err), w1) \<Rightarrow>
                  if err \<noteq> None then
                    Returns (Wrap err errCreateQualityGate, MgQualityGate cr1, w1)
                  else
                    (case qualityGate of
                       None \<Rightarrow> Panics (calls w1)
                     | Some qg \<Rightarrow>
                         (let cr2 = cr1\<lparr>qg_Annotations :=
                                          SetExternalName (qg_Annotations cr1) (created_ID qg)\<rparr>
                          in
                            if (case qgp_Default (qg_ForProvider cr2) of
                                  None \<Rightarrow> False | Some d \<Rightarrow> d) then
                              (case invoke (CallSetAsDefault (qg_Name cr2))
                                      (client_SetAsDefault c (qg_Name cr2)) w1 of
                                 (err2, w2) \<Rightarrow>
                                   if err2 \<noteq> None then
                                     Returns (Wrap err2 errDefaultQualityGate,
                                              MgQualityGate cr2, w2)
                                   else Returns (None, MgQualityGate cr2, w2))
                            else Returns (None, MgQualityGate cr2, w1)))))
      | _ \<Rightarrow> Returns (Some (ErrorNew errNotQualityGate), mg, w))"

text \<open>
  \<open>Update\<close> first renames when the desired name is not the external name; the rest of the
  function runs on the resource and world that step leaves (\<open>Inr\<close>), unless the rename
  failed and the function has returned (\<open>Inl\<close>).
\<close>

definition qualitygate_Update ::
  "'s QualityGatesClient \<Rightarrow> managed \<Rightarrow> 's world
     \<Rightarrow> (go_error option \<times> managed \<times> 's world) exec" where
  "qualitygate_Update c mg w =
     (case mg of
        MgQualityGate cr \<Rightarrow>
          (let externalName = GetExternalName (qg_Annotations cr) in
           if externalName = [] then
             Returns (Some (ErrorNew (''external name is not set for Quality Gate '' @ qg_Name cr)),
                      mg, w)
           else
             (case (if qgp_Name (qg_ForProvider cr) \<noteq> externalName then
                      (let opt = \<lparr> ren_CurrentName = externalName,
                                    ren_Name = qgp_Name (qg_ForProvider cr) \<rparr> in
                       case invoke (CallRename opt) (client_Rename c opt) w of
                         (err, w1) \<Rightarrow>
                           if err \<noteq> None then Inl (Wrap err errUpdateQualityGate, w1)
                           else Inr (cr\<lparr>qg_Annotations :=
                                          SetExternalName (qg_Annotations cr)
                                            (qgp_Name (qg_ForProvider cr))\<rparr>, w1))
                    else Inr (cr, w)) of
                Inl (err, w1) \<Rightarrow> Returns (err, mg, w1)
              | Inr (cr1, w1) \<Rightarrow>
                  if (case qgp_Default (qg_ForProvider cr1) of
                        None \<Rightarrow> False | Some d \<Rightarrow> d) then
                    (case invoke (CallSetAsDefault (qgp_Name (qg_ForProvider cr1)))
                            (client_SetAsDefault c (qgp_Name (qg_ForProvider cr1))) w1 of
                       (err2, w2) \<Rightarrow>
                         if err2 \<noteq> None then
                           Returns (Wrap err2 errDefaultQualityGate, MgQualityGate cr1, w2)
                         else Returns (None, MgQualityGate cr1, w2))
                  else Returns (None, MgQualityGate cr1, w1)))
      | _ \<Rightarrow> Returns (Some (ErrorNew errNotQualityGate), mg, w))"

definition qualitygate_Delete ::
  "'s QualityGatesClient \<Rightarrow> managed \<Rightarrow> 's world
     \<Rightarrow> (go_error option \<times> managed \<times> 's world) exec" where
  "qualitygate_Delete c mg w =
     (case mg of
        MgQualityGate cr \<Rightarrow>
          (let cr1 = cr\<lparr>qg_Conditions := SetConditions (qg_Conditions cr) Deleting\<rparr>;
               externalName = GetExternalName (qg_Annotations cr1)
           in
             if externalName = [] then Returns (None, MgQualityGate cr1, w)
             else
               (case invoke (CallDestroy (qg_Name cr1)) (client_Destroy c (qg_Name cr1)) w of
                  (err, w1) \<Rightarrow>
                    if err \<noteq> None then
                      Returns (Wrap err errDeleteQualityGate, MgQualityGate cr1, w1)
                    else Returns (None, MgQualityGate cr1, w1)))
      | _ \<Rightarrow> Returns (Some (ErrorNew errNotQualityGate), mg, w))"

section \<open>internal/controller/qualitygatecondition\<close>

definition errNotQualityGateCondition :: string where
  "errNotQualityGateCondition = ''managed resource is not a QualityGateCondition custom resource''"

definition errCreateQualityGateCondition :: string where
  "errCreateQualityGateCondition = ''cannot create SonarQube Quality Gate Condition''"

definition errUpdateQualityGateCondition :: string where
  "errUpdateQualityGateCondition = ''cannot update SonarQube Quality Gate Condition''"

definition errDeleteQualityGateCondition :: string where
  "errDeleteQualityGateCondition = ''cannot delete SonarQube Quality Gate Condition''"

definition errShowQualityGateCondition :: string where
  "errShowQualityGateCondition = ''cannot get SonarQube Quality Gate Condition''"

definition qualitygatecondition_Observe ::
  "'s QualityGatesClient \<Rightarrow> managed \<Rightarrow> 's world
     \<Rightarrow> (ExternalObservation \<times> go_error option \<times> managed \<times> 's world) exec" where
  "qualitygatecondition_Observe c mg w =
     (case mg of
        MgQualityGateCondition cr \<Rightarrow>
          (let externalName = GetExternalName (qgc_Annotations cr) in
           if externalName = [] then
             Returns (zeroExternalObservation\<lparr>ResourceExists := False\<rparr>, None, mg, w)
           else
             (case invoke (CallShow externalName) (client_Show c externalName) w of
                ((qualityGate, err), w1) \<Rightarrow>
                  if err \<noteq> None then
                    Returns (zeroExternalObservation\<lparr>ResourceExists := False\<rparr>,
                             Wrap err errShowQualityGateCondition, mg, w1)
                  else
                    (case qualityGate of
                       None \<Rightarrow> Panics (calls w1)
                     | Some qg \<Rightarrow>
                         (case FindQualityGateConditionObservation externalName
                                 (show_Conditions qg) of
                            (observation, err2) \<Rightarrow>
                              if err2 \<noteq> None then
                                Returns (zeroExternalObservation\<lparr>ResourceExists := False\<rparr>,
                                         Wrap err2 errShowQualityGateCondition, mg, w1)
                              else
                                (let cr1 = cr\<lparr>qgc_AtProvider := observation\<rparr>;
                                     cr2 = cr1\<lparr>qgc_Conditions :=
                                                  SetConditions (qgc_Conditions cr1) Available\<rparr>;
                                     current = qgc_ForProvider cr2;
                                     cr3 = (case LateInitializeQualityGateCondition
                                                   (Some (qgc_ForProvider cr2))
                                                   (Some (qgc_AtProvider cr2)) of
                                              None \<Rightarrow> cr2
                                            | Some params \<Rightarrow> cr2\<lparr>qgc_ForProvider := params\<rparr>)
                                 in Returns
                                      (\<lparr> ResourceExists = True,
                                         ResourceUpToDate =
                                           IsQualityGateConditionUpToDate
                                             (Some (qgc_ForProvider cr3))
                                             (Some (qgc_AtProvider cr3)),
                                         ResourceLateInitialized =
                                           (current \<noteq> qgc_ForProvider cr3) \<rparr>,
                                       None, MgQualityGateCondition cr3, w1))))))
      | _ \<Rightarrow> Returns (zeroExternalObservation, Some (ErrorNew errNotQualityGateCondition), mg, w))"

text \<open>
  \<open>Create\<close> builds the option struct before any remote call; when that panics
  (\<open>QualityGateName\<close> nil), so does \<open>Create\<close>, with the condition already set to Creating
  but nothing issued.
\<close>

definition qualitygatecondition_Create ::
  "'s QualityGatesClient \<Rightarrow> managed \<Rightarrow> 's world
     \<Rightarrow> (go_error option \<times> managed \<times> 's world) exec" where
  "qualitygatecondition_Create c mg w =
     (case mg of
        MgQualityGateCondition cr \<Rightarrow>
          (let cr1 = cr\<lparr>qgc_Conditions := SetConditions (qgc_Conditions cr) Creating\<rparr> in
           case GenerateCreateQualityGateConditionOption (qgc_ForProvider cr1) of
             None \<Rightarrow> Panics (calls w)
           | Some qualityGateConditionCreateOptions \<Rightarrow>
               (case invoke (CallCreateCondition qualityGateConditionCreateOptions)
                       (client_CreateCondition c qualityGateConditionCreateOptions) w of
                  ((qualityGateCondition, err), w1) \<Rightarrow>
                    if err \<noteq> None then
                      Returns (Wrap err errCreateQualityGateCondition,
                               MgQualityGateCondition cr1, w1)
                    else
                      (case qualityGateCondition of
                         None \<Rightarrow> Panics (calls w1)
                       | Some qgc \<Rightarrow>
                           Returns (None,
                                    MgQualityGateCondition
                                      (cr1\<lparr>qgc_Annotations :=
                                             SetExternalName (qgc_Annotations cr1)
                                               (createdcond_ID qgc)\<rparr>),
                                    w1))))
      | _ \<Rightarrow> Returns (Some (ErrorNew errNotQualityGateCondition), mg, w))"

definition qualitygatecondition_Update ::
  "'s QualityGatesClient \<Rightarrow> managed \<Rightarrow> 's world
     \<Rightarrow> (go_error option \<times> managed \<times> 's world) exec" where
  "qualitygatecondition_Update c mg w =
     (case mg of
        MgQualityGateCondition cr \<Rightarrow>
          (let externalName = GetExternalName (qgc_Annotations cr) in
           if externalName = [] then
             Returns (Some (ErrorNew (''external name is not set for Quality Gate Condition ''
                                        @ qgc_Name cr)), mg, w)
           else
             (let qualityGateConditionUpdateOptions =
                    GenerateUpdateQualityGateConditionOption externalName (qgc_ForProvider cr)
              in case invoke (CallUpdateCondition qualityGateConditionUpdateOptions)
                        (client_UpdateCondition c qualityGateConditionUpdateOptions) w of
                   (err, w1) \<Rightarrow>
                     if err \<noteq> None then
                       Returns (Wrap err errUpdateQualityGateCondition, mg, w1)
                     else Returns (None, mg, w1)))
      | _ \<Rightarrow> Returns (Some (ErrorNew errNotQualityGateCondition), mg, w))"

definition qualitygatecondition_Delete ::
  "'s QualityGatesClient \<Rightarrow> managed \<Rightarrow> 's world
     \<Rightarrow> (go_error option \<times> managed \<times> 's world) exec" where
  "qualitygatecondition_Delete c mg w =
     (case mg of
        MgQualityGateCondition cr \<Rightarrow>
          (let cr1 = cr\<lparr>qgc_Conditions := SetConditions (qgc_Conditions cr) Deleting\<rparr>;
               externalName = GetExternalName (qgc_Annotations cr1)
           in
             if externalName = [] then Returns (None, MgQualityGateCondition cr1, w)
             else
               (let opt = GenerateDeleteQualityGateConditionOption externalName in
                case invoke (CallDeleteCondition opt) (client_DeleteCondition c opt) w of
                  (err, w1) \<Rightarrow>
                    if err \<noteq> None then
                      Returns (Wrap err errDeleteQualityGateCondition,
                               MgQualityGateCondition cr1, w1)
                    else Returns (None, MgQualityGateCondition cr1, w1)))
      | _ \<Rightarrow> Returns (Some (ErrorNew errNotQualityGateCondition), mg, w))"

section \<open>Fixtures of the controllers' tests\<close>

text \<open>
  The tests drive the controllers with a mock client whose methods are given per case. The
  mock keeps no remote state (\<open>unit\<close>); a method a case does not give answers with an
  error here.
\<close>

definition MockQualityGatesClient :: "unit QualityGatesClient" where
  "MockQualityGatesClient =
     \<lparr> client_Create = (\<lambda>opt s. ((None, Some (ErrorNew ''not mocked'')), s)),
       client_CreateCondition = (\<lambda>opt s. ((None, Some (ErrorNew ''not mocked'')), s)),
       client_DeleteCondition = (\<lambda>opt s. (Some (ErrorNew ''not mocked''), s)),
       client_Destroy = (\<lambda>opt s. (Some (ErrorNew ''not mocked''), s)),
       client_Rename = (\<lambda>opt s. (Some (ErrorNew ''not mocked''), s)),
       client_SetAsDefault = (\<lambda>opt s. (Some (ErrorNew ''not mocked''), s)),
       client_Show = (\<lambda>opt s. ((None, Some (ErrorNew ''not mocked'')), s)),
       client_UpdateCondition = (\<lambda>opt s. (Some (ErrorNew ''not mocked''), s)) \<rparr>"

definition world0 :: "unit world" where
  "world0 = \<lparr> remote = (), calls = [] \<rparr>"

definition zeroQualityGatesActions :: QualityGatesActions where
  "zeroQualityGatesActions =
     \<lparr> act_AssociateProjects = False, act_Copy = False, act_Delegate = False,
       act_Delete = False, act_ManageAiCodeAssurance = False, act_ManageConditions = False,
       act_Rename = False, act_SetAsDefault = False \<rparr>"

definition zeroQualityGateObservation :: QualityGateObservation where
  "zeroQualityGateObservation =
     \<lparr> qgo_Actions = zeroQualityGatesActions, qgo_CaycStatus = [], qgo_Conditions = [],
       qgo_IsAiCodeSupported = False, qgo_IsBuiltIn = False, qgo_IsDefault = False,
       qgo_Name = [] \<rparr>"

definition zeroQualitygatesShowObject_sub1 :: QualitygatesShowObject_sub1 where
  "zeroQualitygatesShowObject_sub1 =
     \<lparr> sub1_AssociateProjects = False, sub1_Copy = False, sub1_Delegate = False,
       sub1_Delete = False, sub1_ManageAiCodeAssurance = False, sub1_ManageConditions = False,
       sub1_Rename = False, sub1_SetAsDefault = False \<rparr>"

text \<open>
  TestCreate, case \<open>CreateWithDefaultTrue\<close>: the remote gate is called my-sonar-gate, the
  Kubernetes resource test-gate, and the mock's \<open>SetAsDefault\<close> accepts the remote name only.
\<close>

definition client_CreateWithDefaultTrue :: "unit QualityGatesClient" where
  "client_CreateWithDefaultTrue =
     MockQualityGatesClient
       \<lparr> client_Create :=
           (\<lambda>opt s. ((Some \<lparr> created_ID = ''gate-123'', created_Name = ''my-sonar-gate'' \<rparr>,
                        None), s)),
         client_SetAsDefault :=
           (\<lambda>opt s. (if opt \<noteq> ''my-sonar-gate''
                       then Some (ErrorNew (''expected SonarQube gate name but got: '' @ opt))
                       else None, s)) \<rparr>"

definition mg_CreateWithDefaultTrue :: QualityGate where
  "mg_CreateWithDefaultTrue =
     \<lparr> qg_Name = ''test-gate'',
       qg_Annotations = Map.empty,
       qg_ForProvider = \<lparr> qgp_Name = ''my-sonar-gate'', qgp_Default = Some True \<rparr>,
       qg_AtProvider = zeroQualityGateObservation,
       qg_Conditions = [] \<rparr>"

text \<open>
  TestCreateSetsExternalNameToSonarQubeName: the remote create answers with an ID and a
  name that differ.
\<close>

definition client_CreateSetsExternalName :: "unit QualityGatesClient" where
  "client_CreateSetsExternalName =
     MockQualityGatesClient
       \<lparr> client_Create :=
           (\<lambda>opt s. ((Some \<lparr> created_ID = ''generated-id-12345'',
                               created_Name = ''ActualSonarQubeName'' \<rparr>, None), s)) \<rparr>"

definition mg_CreateSetsExternalName :: QualityGate where
  "mg_CreateSetsExternalName =
     \<lparr> qg_Name = ''k8s-resource-name'',
       qg_Annotations = Map.empty,
       qg_ForProvider = \<lparr> qgp_Name = ''ActualSonarQubeName'', qgp_Default = None \<rparr>,
       qg_AtProvider = zeroQualityGateObservation,
       qg_Conditions = [] \<rparr>"

text \<open>
  TestDelete, case \<open>SuccessfulDelete\<close>: the external name is my-sonar-gate, the Kubernetes
  resource k8s-resource-name, and the mock's \<open>Destroy\<close> accepts the external name only.
\<close>

definition client_SuccessfulDelete :: "unit QualityGatesClient" where
  "client_SuccessfulDelete =
     MockQualityGatesClient
       \<lparr> client_Destroy :=
           (\<lambda>opt s. (if opt \<noteq> ''my-sonar-gate''
                       then Some (ErrorNew (''expected external name my-sonar-gate but got: ''
                                              @ opt))
                       else None, s)) \<rparr>"

definition mg_SuccessfulDelete :: QualityGate where
  "mg_SuccessfulDelete =
     \<lparr> qg_Name = ''k8s-resource-name'',
       qg_Annotations = SetExternalName Map.empty ''my-sonar-gate'',
       qg_ForProvider = \<lparr> qgp_Name = [], qgp_Default = None \<rparr>,
       qg_AtProvider = zeroQualityGateObservation,
       qg_Conditions = [] \<rparr>"

text \<open>
  TestObserve of the condition controller, cases \<open>ShowFailsReturnsError\<close> and
  \<open>ConditionNotFoundInQualityGate\<close>.
\<close>

definition client_ShowFails :: "unit QualityGatesClient" where
  "client_ShowFails =
     MockQualityGatesClient
       \<lparr> client_Show := (\<lambda>opt s. ((None, Some (ErrorNew ''api error'')), s)) \<rparr>"

definition client_ConditionNotFound :: "unit QualityGatesClient" where
  "client_ConditionNotFound =
     MockQualityGatesClient
       \<lparr> client_Show :=
           (\<lambda>opt s. ((Some \<lparr> show_Actions = zeroQualitygatesShowObject_sub1,
                               show_CaycStatus = [],
                               show_Conditions = [],
                               show_IsAiCodeSupported = False,
                               show_IsBuiltIn = False,
                               show_IsDefault = False,
                               show_Name = ''test-gate'' \<rparr>, None), s)) \<rparr>"

definition mg_ConditionNotFound :: QualityGateCondition where
  "mg_ConditionNotFound =
     \<lparr> qgc_Name = ''test-condition'',
       qgc_Annotations = SetExternalName Map.empty ''cond-123'',
       qgc_ForProvider =
         \<lparr> qgcp_QualityGateName = Some ''test-gate'',
           qgcp_QualityGateRef = None,
           qgcp_QualityGateSelector = None,
           qgcp_Error = ''80'',
           qgcp_Metric = ''coverage'',
           qgcp_Op = None \<rparr>,
       qgc_AtProvider = zeroQualityGateConditionObservation,
       qgc_Conditions = [] \<rparr>"

text \<open>
  TestUpdate, case \<open>EmptyExternalNameReturnsError\<close>, for the gate (the condition's case
  uses the condition above without its annotation), and TestCreate's \<open>SuccessfulCreate\<close>
  of the condition controller.
\<close>

definition mg_EmptyExternalName :: QualityGate where
  "mg_EmptyExternalName =
     \<lparr> qg_Name = ''test-gate'',
       qg_Annotations = Map.empty,
       qg_ForProvider = \<lparr> qgp_Name = [], qgp_Default = None \<rparr>,
       qg_AtProvider = zeroQualityGateObservation,
       qg_Conditions = [] \<rparr>"

definition mg_gate_ShowFails :: QualityGate where
  "mg_gate_ShowFails =
     mg_EmptyExternalName \<lparr> qg_Annotations := SetExternalName Map.empty ''test-gate'' \<rparr>"

definition client_SuccessfulCreateCondition :: "unit QualityGatesClient" where
  "client_SuccessfulCreateCondition =
     MockQualityGatesClient
       \<lparr> client_CreateCondition :=
           (\<lambda>opt s. ((Some \<lparr> createdcond_ID = ''cond-123'',
                               createdcond_Error = cco_Error opt,
                               createdcond_Metric = cco_Metric opt,
                               createdcond_Op = [] \<rparr>, None), s)) \<rparr>"

definition mg_SuccessfulCreateCondition :: QualityGateCondition where
  "mg_SuccessfulCreateCondition =
     \<lparr> qgc_Name = ''test-condition'',
       qgc_Annotations = Map.empty,
       qgc_ForProvider =
         \<lparr> qgcp_QualityGateName = Some ''test-gate'',
           qgcp_QualityGateRef = None,
           qgcp_QualityGateSelector = None,
           qgcp_Error = ''80'',
           qgcp_Metric = ''coverage'',
           qgcp_Op = None \<rparr>,
       qgc_AtProvider = zeroQualityGateConditionObservation,
       qgc_Conditions = [] \<rparr>"

text \<open>The same condition with its parent gate name left unset.\<close>

definition mg_CreateConditionNoGateName :: QualityGateCondition where
  "mg_CreateConditionNoGateName =
     mg_SuccessfulCreateCondition
       \<lparr> qgc_ForProvider :=
           (qgc_ForProvider mg_SuccessfulCreateCondition) \<lparr> qgcp_QualityGateName := None \<rparr> \<rparr>"

section \<open>What the operations do, call by call\<close>

lemma GetExternalName_SetExternalName:
  "GetExternalName (SetExternalName a n) = n"
  by (simp add: GetExternalName_def SetExternalName_def)

text \<open>
  The gate's \<open>Create\<close>, once the remote create has answered with a gate and the desired
  \<open>Default\<close> is true: two calls, the second one \<open>SetAsDefault\<close> on \<open>cr.Name\<close>; whatever that
  call answers, the external name set from the create answer stays.
\<close>

lemma qualitygate_Create_default_call:
  assumes "client_Create c (qgp_Name (qg_ForProvider g)) (remote w) = ((Some qg, None), s)"
    and "qgp_Default (qg_ForProvider g) = Some True"
    and "client_SetAsDefault c (qg_Name g) s = (err, s')"
  shows "qualitygate_Create c (MgQualityGate g) w =
           Returns (Wrap err errDefaultQualityGate,
                    MgQualityGate
                      (g\<lparr>qg_Annotations := SetExternalName (qg_Annotations g) (created_ID qg),
                         qg_Conditions := SetConditions (qg_Conditions g) Creating\<rparr>),
                    \<lparr> remote = s',
                      calls = calls w @ [CallCreate (qgp_Name (qg_ForProvider g)),
                                         CallSetAsDefault (qg_Name g)] \<rparr>)"
  using assms
  by (cases err)
     (simp_all add: qualitygate_Create_def GenerateQualityGateCreateOptions_def invoke_def
        Wrap_def Let_def)

text \<open>A \<open>Create\<close> that returns no error has stored the ID of the remote answer.\<close>

lemma qualitygate_Create_external_name:
  assumes "qualitygate_Create c (MgQualityGate g) w = Returns (None, mg', w')"
  shows "\<exists>created s g'.
           client_Create c (qgp_Name (qg_ForProvider g)) (remote w) = ((Some created, None), s) \<and>
           mg' = MgQualityGate g' \<and>
           GetExternalName (qg_Annotations g') = created_ID created"
  using assms
  by (auto simp: qualitygate_Create_def invoke_def Wrap_def Let_def
        GenerateQualityGateCreateOptions_def GetExternalName_SetExternalName
        split: option.splits prod.splits if_splits)

lemma qualitygatecondition_Create_external_name:
  assumes "qualitygatecondition_Create c (MgQualityGateCondition k) w = Returns (None, mg', w')"
  shows "\<exists>opt created s k'.
           GenerateCreateQualityGateConditionOption (qgc_ForProvider k) = Some opt \<and>
           client_CreateCondition c opt (remote w) = ((Some created, None), s) \<and>
           mg' = MgQualityGateCondition k' \<and>
           GetExternalName (qgc_Annotations k') = createdcond_ID created"
  using assms
  by (auto simp: qualitygatecondition_Create_def invoke_def Wrap_def Let_def
        GetExternalName_SetExternalName split: option.splits prod.splits if_splits)

text \<open>
  \<open>Delete\<close> with an empty external name returns at once: the world is the one it was given.
  With an external name, the gate's \<open>Delete\<close> issues \<open>Destroy\<close> on \<open>cr.Name\<close>, the condition's
  issues \<open>DeleteCondition\<close> on the external name; the annotations are not touched.
\<close>

lemma qualitygate_Delete_empty_external_name:
  "GetExternalName (qg_Annotations g) = [] \<Longrightarrow>
     qualitygate_Delete c (MgQualityGate g) w =
       Returns (None,
                MgQualityGate (g\<lparr>qg_Conditions := SetConditions (qg_Conditions g) Deleting\<rparr>),
                w)"
  by (simp add: qualitygate_Delete_def Let_def)

lemma qualitygatecondition_Delete_empty_external_name:
  "GetExternalName (qgc_Annotations k) = [] \<Longrightarrow>
     qualitygatecondition_Delete c (MgQualityGateCondition k) w =
       Returns (None,
                MgQualityGateCondition
                  (k\<lparr>qgc_Conditions := SetConditions (qgc_Conditions k) Deleting\<rparr>),
                w)"
  by (simp add: qualitygatecondition_Delete_def Let_def)

lemma qualitygate_Delete_call:
  assumes "GetExternalName (qg_Annotations g) \<noteq> []"
    and "client_Destroy c (qg_Name g) (remote w) = (err, s)"
  shows "qualitygate_Delete c (MgQualityGate g) w =
           Returns (Wrap err errDeleteQualityGate,
                    MgQualityGate
                      (g\<lparr>qg_Conditions := SetConditions (qg_Conditions g) Deleting\<rparr>),
                    \<lparr> remote = s, calls = calls w @ [CallDestroy (qg_Name g)] \<rparr>)"
  using assms
  by (cases err) (simp_all add: qualitygate_Delete_def invoke_def Wrap_def Let_def)

lemma qualitygatecondition_Delete_call:
  assumes "GetExternalName (qgc_Annotations k) \<noteq> []"
    and "client_DeleteCondition c (GetExternalName (qgc_Annotations k)) (remote w) = (err, s)"
  shows "qualitygatecondition_Delete c (MgQualityGateCondition k) w =
           Returns (Wrap err errDeleteQualityGateCondition,
                    MgQualityGateCondition
                      (k\<lparr>qgc_Conditions := SetConditions (qgc_Conditions k) Deleting\<rparr>),
                    \<lparr> remote = s,
                      calls = calls w
                        @ [CallDeleteCondition (GetExternalName (qgc_Annotations k))] \<rparr>)"
  using assms
  by (cases err)
     (simp_all add: qualitygatecondition_Delete_def GenerateDeleteQualityGateConditionOption_def
        invoke_def Wrap_def Let_def)

text \<open>The linear scan: a prefix without the ID is skipped, a list without it ends in the error.\<close>

lemma Find_no_match:
  "\<forall>x\<in>set cs. sub2_ID x \<noteq> i \<Longrightarrow>
   FindQualityGateConditionObservation i cs =
     (zeroQualityGateConditionObservation, Some (ErrorNew errConditionNotFound))"
  by (induction cs) auto

lemma Find_skips_prefix:
  "\<forall>x\<in>set pre. sub2_ID x \<noteq> i \<Longrightarrow>
   FindQualityGateConditionObservation i (pre @ rest) =
     FindQualityGateConditionObservation i rest"
  by (induction pre) auto

lemma Find_error_no_match:
  "snd (FindQualityGateConditionObservation i cs) \<noteq> None \<Longrightarrow>
   \<forall>x\<in>set cs. sub2_ID x \<noteq> i"
  by (induction cs) (auto split: if_splits)

section \<open>The claims\<close>

text \<open>
  C1. The claim: when the desired \<open>Default\<close> is true, a successful remote create is followed
  by a \<open>SetAsDefault\<close> call on the name the remote create returned, not on the Kubernetes
  resource name. On the input of the test case \<open>CreateWithDefaultTrue\<close> (remote name
  my-sonar-gate, resource name test-gate) the code issues \<open>SetAsDefault\<close> on test-gate, the
  resource name; the mock refuses it and \<open>Create\<close> returns that refusal under the
  default-specific label. The external name set from the create answer is kept.
\<close>

theorem qualitygate_Create_SetAsDefault_on_resource_name:
  "qualitygate_Create client_CreateWithDefaultTrue (MgQualityGate mg_CreateWithDefaultTrue) world0 =
     Returns (Some (ErrorWrap (ErrorNew ''expected SonarQube gate name but got: test-gate'')
                      errDefaultQualityGate),
              MgQualityGate
                (mg_CreateWithDefaultTrue
                   \<lparr> qg_Annotations := SetExternalName Map.empty ''gate-123'',
                     qg_Conditions := [Creating] \<rparr>),
              \<lparr> remote = (),
                calls = [CallCreate ''my-sonar-gate'', CallSetAsDefault ''test-gate''] \<rparr>)"
  by (simp add: qualitygate_Create_def client_CreateWithDefaultTrue_def
        mg_CreateWithDefaultTrue_def world0_def MockQualityGatesClient_def invoke_def Wrap_def
        SetConditions_def GenerateQualityGateCreateOptions_def Let_def)

text \<open>
  C2. The claim: \<open>Delete\<close> with a non-empty external identity issues the remote destroy keyed
  by the external identity. On the input of the test case \<open>SuccessfulDelete\<close> (external name
  my-sonar-gate, resource name k8s-resource-name) the gate's \<open>Delete\<close> issues \<open>Destroy\<close> on
  k8s-resource-name, the resource name; the mock refuses it and \<open>Delete\<close> returns that
  refusal under the delete label.
\<close>

theorem qualitygate_Delete_Destroy_on_resource_name:
  "GetExternalName (qg_Annotations mg_SuccessfulDelete) = ''my-sonar-gate'' \<and>
   qualitygate_Delete client_SuccessfulDelete (MgQualityGate mg_SuccessfulDelete) world0 =
     Returns (Some (ErrorWrap
                      (ErrorNew ''expected external name my-sonar-gate but got: k8s-resource-name'')
                      errDeleteQualityGate),
              MgQualityGate (mg_SuccessfulDelete\<lparr>qg_Conditions := [Deleting]\<rparr>),
              \<lparr> remote = (), calls = [CallDestroy ''k8s-resource-name''] \<rparr>)"
  by (simp add: qualitygate_Delete_def client_SuccessfulDelete_def mg_SuccessfulDelete_def
        MockQualityGatesClient_def world0_def invoke_def Wrap_def SetConditions_def
        GetExternalName_def SetExternalName_def Let_def)

text \<open>
  C3, as claimed: with a non-empty external identity, a lookup that fails as not found makes
  \<open>Observe\<close> report the resource as not existing and return no error. It fails for a
  condition whose ID is not in the condition list of the gate that \<open>Show\<close> returns: \<open>Observe\<close>
  reports the resource as not existing and returns the not-found error under the show label.
\<close>

theorem qualitygatecondition_Observe_not_found_returns_error:
  "qualitygatecondition_Observe client_ConditionNotFound
      (MgQualityGateCondition mg_ConditionNotFound) world0 =
     Returns (\<lparr> ResourceExists = False, ResourceUpToDate = False,
                ResourceLateInitialized = False \<rparr>,
              Some (ErrorWrap (ErrorNew ''quality gate condition not found in observation'')
                      ''cannot get SonarQube Quality Gate Condition''),
              MgQualityGateCondition mg_ConditionNotFound,
              \<lparr> remote = (), calls = [CallShow ''cond-123''] \<rparr>)"
  by (simp add: qualitygatecondition_Observe_def client_ConditionNotFound_def
        mg_ConditionNotFound_def MockQualityGatesClient_def world0_def invoke_def Wrap_def
        GetExternalName_def SetExternalName_def zeroExternalObservation_def
        errConditionNotFound_def errShowQualityGateCondition_def Let_def)

text \<open>
  C3, amended: with a non-empty external identity, when \<open>Show\<close> returns an error (gate and
  condition), or when it returns a gate whose condition list has no element with the
  condition's external identity, \<open>Observe\<close> issues that one \<open>Show\<close> call, reports the resource
  as not existing and leaves the managed resource as it was. For a condition it returns the
  failure under the show label: the error of \<open>Show\<close>, or the not-found error of
  \<open>FindQualityGateConditionObservation\<close>. What the gate's \<open>Observe\<close> returns as its error is
  not part of the statement.
\<close>

theorem Observe_lookup_failure:
  "(GetExternalName (qg_Annotations g) \<noteq> [] \<and>
    client_Show c (GetExternalName (qg_Annotations g)) (remote w) = ((v, Some e), s) \<longrightarrow>
      (\<exists>err. qualitygate_Observe c (MgQualityGate g) w =
         Returns (\<lparr> ResourceExists = False, ResourceUpToDate = False,
                    ResourceLateInitialized = False \<rparr>,
                  err, MgQualityGate g,
                  \<lparr> remote = s,
                    calls = calls w @ [CallShow (GetExternalName (qg_Annotations g))] \<rparr>))) \<and>
   (GetExternalName (qgc_Annotations k) \<noteq> [] \<and>
    client_Show c (GetExternalName (qgc_Annotations k)) (remote w) = ((v, Some e), s) \<longrightarrow>
      qualitygatecondition_Observe c (MgQualityGateCondition k) w =
         Returns (\<lparr> ResourceExists = False, ResourceUpToDate = False,
                    ResourceLateInitialized = False \<rparr>,
                  Some (ErrorWrap e errShowQualityGateCondition), MgQualityGateCondition k,
                  \<lparr> remote = s,
                    calls = calls w @ [CallShow (GetExternalName (qgc_Annotations k))] \<rparr>)) \<and>
   (GetExternalName (qgc_Annotations k) \<noteq> [] \<and>
    client_Show c (GetExternalName (qgc_Annotations k)) (remote w) = ((Some qg, None), s) \<and>
    (\<forall>x\<in>set (show_Conditions qg). sub2_ID x \<noteq> GetExternalName (qgc_Annotations k)) \<longrightarrow>
      qualitygatecondition_Observe c (MgQualityGateCondition k) w =
         Returns (\<lparr> ResourceExists = False, ResourceUpToDate = False,
                    ResourceLateInitialized = False \<rparr>,
                  Some (ErrorWrap (ErrorNew errConditionNotFound) errShowQualityGateCondition),
                  MgQualityGateCondition k,
                  \<lparr> remote = s,
                    calls = calls w @ [CallShow (GetExternalName (qgc_Annotations k))] \<rparr>))"
  by (simp add: qualitygate_Observe_def qualitygatecondition_Observe_def invoke_def Wrap_def
        zeroExternalObservation_def Find_no_match Let_def)

text \<open>
  The three cases at the tests' inputs: \<open>Show\<close> failing with "api error" for the gate and for
  the condition, and \<open>Show\<close> returning a gate without conditions.
\<close>

theorem Observe_lookup_failure_witness:
  "GetExternalName (qg_Annotations mg_gate_ShowFails) = ''test-gate'' \<and>
   GetExternalName (qgc_Annotations mg_ConditionNotFound) = ''cond-123'' \<and>
   (\<exists>err. qualitygate_Observe client_ShowFails (MgQualityGate mg_gate_ShowFails) world0 =
      Returns (\<lparr> ResourceExists = False, ResourceUpToDate = False,
                 ResourceLateInitialized = False \<rparr>,
               err, MgQualityGate mg_gate_ShowFails,
               \<lparr> remote = (), calls = [CallShow ''test-gate''] \<rparr>)) \<and>
   qualitygatecondition_Observe client_ShowFails
       (MgQualityGateCondition mg_ConditionNotFound) world0 =
     Returns (\<lparr> ResourceExists = False, ResourceUpToDate = False,
                ResourceLateInitialized = False \<rparr>,
              Some (ErrorWrap (ErrorNew ''api error'') errShowQualityGateCondition),
              MgQualityGateCondition mg_ConditionNotFound,
              \<lparr> remote = (), calls = [CallShow ''cond-123''] \<rparr>) \<and>
   qualitygatecondition_Observe client_ConditionNotFound
       (MgQualityGateCondition mg_ConditionNotFound) world0 =
     Returns (\<lparr> ResourceExists = False, ResourceUpToDate = False,
                ResourceLateInitialized = False \<rparr>,
              Some (ErrorWrap (ErrorNew errConditionNotFound) errShowQualityGateCondition),
              MgQualityGateCondition mg_ConditionNotFound,
              \<lparr> remote = (), calls = [CallShow ''cond-123''] \<rparr>)"
proof -
  have gate_name: "GetExternalName (qg_Annotations mg_gate_ShowFails) = ''test-gate''"
    by (simp add: mg_gate_ShowFails_def GetExternalName_SetExternalName)
  have cond_name: "GetExternalName (qgc_Annotations mg_ConditionNotFound) = ''cond-123''"
    by (simp add: mg_ConditionNotFound_def GetExternalName_SetExternalName)
  have show_fails:
    "client_Show client_ShowFails n u = ((None, Some (ErrorNew ''api error'')), ())"
    for n u
    by (simp add: client_ShowFails_def MockQualityGatesClient_def)
  have show_empty:
    "client_Show client_ConditionNotFound n u =
       ((Some \<lparr> show_Actions = zeroQualitygatesShowObject_sub1, show_CaycStatus = [],
                 show_Conditions = [], show_IsAiCodeSupported = False, show_IsBuiltIn = False,
                 show_IsDefault = False, show_Name = ''test-gate'' \<rparr>, None), ())"
    for n u
    by (simp add: client_ConditionNotFound_def MockQualityGatesClient_def)
  have calls0: "calls world0 = []"
    by (simp add: world0_def)
  show ?thesis
    using Observe_lookup_failure
            [of mg_gate_ShowFails client_ShowFails world0 None "ErrorNew ''api error''" "()"
                mg_ConditionNotFound]
          Observe_lookup_failure
            [of mg_gate_ShowFails client_ConditionNotFound world0 None "ErrorNew ''api error''"
                "()" mg_ConditionNotFound
                "\<lparr> show_Actions = zeroQualitygatesShowObject_sub1, show_CaycStatus = [],
                   show_Conditions = [], show_IsAiCodeSupported = False,
                   show_IsBuiltIn = False, show_IsDefault = False, show_Name = ''test-gate'' \<rparr>"]
    by (simp add: gate_name cond_name show_fails show_empty calls0)
qed

text \<open>
  C4. The claim: after a successful \<open>Create\<close> the external identity of a gate is the display
  name the remote create returned. On the input of the test
  \<open>TestCreateSetsExternalNameToSonarQubeName\<close> the remote create returns the ID
  generated-id-12345 and the name ActualSonarQubeName; \<open>Create\<close> returns no error and the
  external name it has stored is the ID.
\<close>

theorem qualitygate_Create_stores_ID:
  "qualitygate_Create client_CreateSetsExternalName
      (MgQualityGate mg_CreateSetsExternalName) world0 =
     Returns (None,
              MgQualityGate
                (mg_CreateSetsExternalName
                   \<lparr> qg_Annotations := SetExternalName Map.empty ''generated-id-12345'',
                     qg_Conditions := [Creating] \<rparr>),
              \<lparr> remote = (), calls = [CallCreate ''ActualSonarQubeName''] \<rparr>) \<and>
   GetExternalName (SetExternalName Map.empty ''generated-id-12345'') = ''generated-id-12345''"
  by (simp add: qualitygate_Create_def client_CreateSetsExternalName_def
        mg_CreateSetsExternalName_def world0_def MockQualityGatesClient_def invoke_def Wrap_def
        SetConditions_def GenerateQualityGateCreateOptions_def GetExternalName_def
        SetExternalName_def Let_def)

text \<open>
  C5. Both comparators return true on a nil desired specification, false on a desired
  specification with a nil observation, and otherwise true exactly when the required string
  fields are equal to their observed counterparts and the optional field is either unset or
  set to the observed value.
\<close>

theorem IsUpToDate_characterisation:
  "IsQualityGateUpToDate None ob1 \<and>
   \<not> IsQualityGateUpToDate (Some D) None \<and>
   IsQualityGateUpToDate (Some D) (Some ob) =
     (qgp_Name D = qgo_Name ob \<and>
      (qgp_Default D = None \<or> qgp_Default D = Some (qgo_IsDefault ob))) \<and>
   IsQualityGateConditionUpToDate None ob2 \<and>
   \<not> IsQualityGateConditionUpToDate (Some P) None \<and>
   IsQualityGateConditionUpToDate (Some P) (Some obc) =
     (qgcp_Error P = qgco_Error obc \<and> qgcp_Metric P = qgco_Metric obc \<and>
      (qgcp_Op P = None \<or> qgcp_Op P = Some (qgco_Op obc)))"
  by (auto simp: IsQualityGateUpToDate_def IsQualityGateConditionUpToDate_def
        IsComparablePtrEqualComparable_def split: option.splits)

text \<open>
  C6. Late initialization keeps an optional field that is set: with \<open>Default\<close> (gate) or \<open>Op\<close>
  (condition) set to a value, the specification after the call is the one before it, whatever
  the observation; and with a nil specification or a nil observation nothing changes.
\<close>

theorem LateInitialize_keeps_set_field:
  "(qgp_Default D = Some v \<longrightarrow>
      LateInitializeQualityGate (Some D) ob = Some D \<and>
      map_option qgp_Default (LateInitializeQualityGate (Some D) ob) = Some (Some v)) \<and>
   (qgcp_Op P = Some op \<longrightarrow>
      LateInitializeQualityGateCondition (Some P) obc = Some P \<and>
      map_option qgcp_Op (LateInitializeQualityGateCondition (Some P) obc) = Some (Some op)) \<and>
   LateInitializeQualityGate None ob = None \<and>
   LateInitializeQualityGate (Some D) None = Some D \<and>
   LateInitializeQualityGateCondition None obc = None \<and>
   LateInitializeQualityGateCondition (Some P) None = Some P"
  by (auto simp: LateInitializeQualityGate_def LateInitializeQualityGateCondition_def
        AssignIfNil_def split: option.splits)

text \<open>
  A desired \<open>Default\<close> of false against an observed true, and a desired \<open>Op\<close> of GT against an
  observed LT: both stay.
\<close>

theorem LateInitialize_keeps_set_field_witness:
  "qgp_Default \<lparr> qgp_Name = ''test-gate'', qgp_Default = Some False \<rparr> = Some False \<and>
   LateInitializeQualityGate (Some \<lparr> qgp_Name = ''test-gate'', qgp_Default = Some False \<rparr>)
       (Some (zeroQualityGateObservation \<lparr> qgo_IsDefault := True \<rparr>)) =
     Some \<lparr> qgp_Name = ''test-gate'', qgp_Default = Some False \<rparr> \<and>
   qgcp_Op (qgc_ForProvider mg_SuccessfulCreateCondition \<lparr> qgcp_Op := Some ''GT'' \<rparr>) = Some ''GT'' \<and>
   map_option qgcp_Op
       (LateInitializeQualityGateCondition
          (Some (qgc_ForProvider mg_SuccessfulCreateCondition \<lparr> qgcp_Op := Some ''GT'' \<rparr>))
          (Some (zeroQualityGateConditionObservation \<lparr> qgco_Op := ''LT'' \<rparr>))) =
     Some (Some ''GT'')"
  using LateInitialize_keeps_set_field
          [of "\<lparr> qgp_Name = ''test-gate'', qgp_Default = Some False \<rparr>" False
              "Some (zeroQualityGateObservation \<lparr> qgo_IsDefault := True \<rparr>)"
              "qgc_ForProvider mg_SuccessfulCreateCondition \<lparr> qgcp_Op := Some ''GT'' \<rparr>" "''GT''"
              "Some (zeroQualityGateConditionObservation \<lparr> qgco_Op := ''LT'' \<rparr>)"]
  by simp

text \<open>
  C7. \<open>Update\<close> on a gate or a condition whose external identity is empty returns the error
  "external name is not set for ..." with the resource's name, and hands back the managed
  resource and the world it was given: no remote call is issued.
\<close>

theorem Update_empty_external_name:
  "(GetExternalName (qg_Annotations g) = [] \<longrightarrow>
      qualitygate_Update c (MgQualityGate g) w =
        Returns (Some (ErrorNew (''external name is not set for Quality Gate '' @ qg_Name g)),
                 MgQualityGate g, w)) \<and>
   (GetExternalName (qgc_Annotations k) = [] \<longrightarrow>
      qualitygatecondition_Update c (MgQualityGateCondition k) w =
        Returns (Some (ErrorNew (''external name is not set for Quality Gate Condition ''
                                   @ qgc_Name k)),
                 MgQualityGateCondition k, w))"
proof (intro conjI impI)
  assume "GetExternalName (qg_Annotations g) = []"
  then show "qualitygate_Update c (MgQualityGate g) w =
      Returns (Some (ErrorNew (''external name is not set for Quality Gate '' @ qg_Name g)),
               MgQualityGate g, w)"
    by (simp add: qualitygate_Update_def)
next
  assume "GetExternalName (qgc_Annotations k) = []"
  then show "qualitygatecondition_Update c (MgQualityGateCondition k) w =
      Returns (Some (ErrorNew (''external name is not set for Quality Gate Condition ''
                                 @ qgc_Name k)),
               MgQualityGateCondition k, w)"
    by (simp add: qualitygatecondition_Update_def)
qed

text \<open>The tests' case \<open>EmptyExternalNameReturnsError\<close>, on a gate and on a condition.\<close>

theorem Update_empty_external_name_witness:
  "GetExternalName (qg_Annotations mg_EmptyExternalName) = [] \<and>
   qualitygate_Update MockQualityGatesClient (MgQualityGate mg_EmptyExternalName) world0 =
     Returns (Some (ErrorNew ''external name is not set for Quality Gate test-gate''),
              MgQualityGate mg_EmptyExternalName, world0) \<and>
   GetExternalName (qgc_Annotations mg_SuccessfulCreateCondition) = [] \<and>
   qualitygatecondition_Update MockQualityGatesClient
       (MgQualityGateCondition mg_SuccessfulCreateCondition) world0 =
     Returns (Some (ErrorNew
                      ''external name is not set for Quality Gate Condition test-condition''),
              MgQualityGateCondition mg_SuccessfulCreateCondition, world0) \<and>
   calls world0 = []"
proof -
  have gate_empty: "GetExternalName (qg_Annotations mg_EmptyExternalName) = []"
    by (simp add: GetExternalName_def mg_EmptyExternalName_def)
  have cond_empty: "GetExternalName (qgc_Annotations mg_SuccessfulCreateCondition) = []"
    by (simp add: GetExternalName_def mg_SuccessfulCreateCondition_def)
  have gate_name: "qg_Name mg_EmptyExternalName = ''test-gate''"
    by (simp add: mg_EmptyExternalName_def)
  have cond_name: "qgc_Name mg_SuccessfulCreateCondition = ''test-condition''"
    by (simp add: mg_SuccessfulCreateCondition_def)
  have calls0: "calls world0 = []"
    by (simp add: world0_def)
  show ?thesis
    using Update_empty_external_name
            [of mg_EmptyExternalName MockQualityGatesClient world0 mg_SuccessfulCreateCondition]
    by (simp add: gate_empty cond_empty gate_name cond_name calls0)
qed

text \<open>
  C8. Building the create payload dereferences \<open>QualityGateName\<close>: when it is nil the payload
  builder panics and so does the condition's \<open>Create\<close>, before any remote call. When it is
  set and the remote create answers with a condition or with an error, \<open>Create\<close> returns.
\<close>

theorem qualitygatecondition_Create_panics_without_gate_name:
  "(qgcp_QualityGateName (qgc_ForProvider k) = None \<longrightarrow>
      GenerateCreateQualityGateConditionOption (qgc_ForProvider k) = None \<and>
      qualitygatecondition_Create c (MgQualityGateCondition k) w = Panics (calls w)) \<and>
   (qgcp_QualityGateName (qgc_ForProvider k) \<noteq> None \<and>
    GenerateCreateQualityGateConditionOption (qgc_ForProvider k) = Some opt \<and>
    client_CreateCondition c opt (remote w) = ((v, err), s) \<and>
    (v \<noteq> None \<or> err \<noteq> None) \<longrightarrow>
      (\<exists>r. qualitygatecondition_Create c (MgQualityGateCondition k) w = Returns r))"
  by (auto simp: qualitygatecondition_Create_def GenerateCreateQualityGateConditionOption_def
        invoke_def Let_def split: option.splits)

text \<open>
  The condition of the tests' \<open>SuccessfulCreate\<close> returns; with its gate name removed it
  panics and the mock has seen no call.
\<close>

theorem qualitygatecondition_Create_panics_without_gate_name_witness:
  "qgcp_QualityGateName (qgc_ForProvider mg_CreateConditionNoGateName) = None \<and>
   qualitygatecondition_Create client_SuccessfulCreateCondition
       (MgQualityGateCondition mg_CreateConditionNoGateName) world0 = Panics [] \<and>
   qgcp_QualityGateName (qgc_ForProvider mg_SuccessfulCreateCondition) = Some ''test-gate'' \<and>
   GenerateCreateQualityGateConditionOption (qgc_ForProvider mg_SuccessfulCreateCondition) =
     Some \<lparr> cco_GateName = ''test-gate'', cco_Error = ''80'', cco_Metric = ''coverage'',
            cco_Op = [] \<rparr> \<and>
   (\<exists>r. qualitygatecondition_Create client_SuccessfulCreateCondition
           (MgQualityGateCondition mg_SuccessfulCreateCondition) world0 = Returns r)"
proof -
  have no_name: "qgcp_QualityGateName (qgc_ForProvider mg_CreateConditionNoGateName) = None"
    by (simp add: mg_CreateConditionNoGateName_def)
  have name: "qgcp_QualityGateName (qgc_ForProvider mg_SuccessfulCreateCondition) =
      Some ''test-gate''"
    by (simp add: mg_SuccessfulCreateCondition_def)
  have payload:
    "GenerateCreateQualityGateConditionOption (qgc_ForProvider mg_SuccessfulCreateCondition) =
       Some \<lparr> cco_GateName = ''test-gate'', cco_Error = ''80'', cco_Metric = ''coverage'',
              cco_Op = [] \<rparr>"
    by (simp add: GenerateCreateQualityGateConditionOption_def mg_SuccessfulCreateCondition_def)
  have answer:
    "client_CreateCondition client_SuccessfulCreateCondition
       \<lparr> cco_GateName = ''test-gate'', cco_Error = ''80'', cco_Metric = ''coverage'',
         cco_Op = [] \<rparr> (remote world0) =
     ((Some \<lparr> createdcond_ID = ''cond-123'', createdcond_Error = ''80'',
               createdcond_Metric = ''coverage'', createdcond_Op = [] \<rparr>, None), ())"
    by (simp add: client_SuccessfulCreateCondition_def MockQualityGatesClient_def)
  have calls0: "calls world0 = []"
    by (simp add: world0_def)
  have panics:
    "qualitygatecondition_Create client_SuccessfulCreateCondition
       (MgQualityGateCondition mg_CreateConditionNoGateName) world0 = Panics []"
    using qualitygatecondition_Create_panics_without_gate_name
            [of mg_CreateConditionNoGateName client_SuccessfulCreateCondition world0]
          no_name calls0
    by simp
  have returns:
    "\<exists>r. qualitygatecondition_Create client_SuccessfulCreateCondition
           (MgQualityGateCondition mg_SuccessfulCreateCondition) world0 = Returns r"
    using qualitygatecondition_Create_panics_without_gate_name
            [of mg_SuccessfulCreateCondition client_SuccessfulCreateCondition world0]
          name payload answer
    by blast
  show ?thesis
    using no_name panics name payload returns by simp
qed

text \<open>
  C9. Late initialization changes at most one field: the gate's specification after the call
  is the one before it up to \<open>Default\<close>, the condition's up to \<open>Op\<close>, for every specification
  and every observation, nil or not; a nil specification stays nil.
\<close>

theorem LateInitialize_frame:
  "(\<exists>d. LateInitializeQualityGate (Some D) ob = Some (D\<lparr>qgp_Default := d\<rparr>)) \<and>
   LateInitializeQualityGate None ob = None \<and>
   (\<exists>op. LateInitializeQualityGateCondition (Some P) obc = Some (P\<lparr>qgcp_Op := op\<rparr>)) \<and>
   LateInitializeQualityGateCondition None obc = None"
proof -
  have gate: "\<exists>d. LateInitializeQualityGate (Some D) ob = Some (D\<lparr>qgp_Default := d\<rparr>)"
  proof (cases ob)
    case None
    then have "LateInitializeQualityGate (Some D) ob =
        Some (D\<lparr>qgp_Default := qgp_Default D\<rparr>)"
      by (simp add: LateInitializeQualityGate_def)
    then show ?thesis ..
  next
    case (Some o1)
    then have "LateInitializeQualityGate (Some D) ob =
        Some (D\<lparr>qgp_Default := AssignIfNil (qgp_Default D) (qgo_IsDefault o1)\<rparr>)"
      by (simp add: LateInitializeQualityGate_def)
    then show ?thesis ..
  qed
  have cond: "\<exists>op. LateInitializeQualityGateCondition (Some P) obc = Some (P\<lparr>qgcp_Op := op\<rparr>)"
  proof (cases obc)
    case None
    then have "LateInitializeQualityGateCondition (Some P) obc =
        Some (P\<lparr>qgcp_Op := qgcp_Op P\<rparr>)"
      by (simp add: LateInitializeQualityGateCondition_def)
    then show ?thesis ..
  next
    case (Some o1)
    then have "LateInitializeQualityGateCondition (Some P) obc =
        Some (P\<lparr>qgcp_Op := AssignIfNil (qgcp_Op P) (qgco_Op o1)\<rparr>)"
      by (simp add: LateInitializeQualityGateCondition_def)
    then show ?thesis ..
  qed
  show ?thesis using gate cond
    by (simp add: LateInitializeQualityGate_def LateInitializeQualityGateCondition_def)
qed

text \<open>
  C10. \<open>FindQualityGateConditionObservation\<close> returns the mapped observation of the first
  element, in list order, whose ID is the one sought: every element before it has another
  ID, whatever follows it. It returns the not-found error, with the zero observation,
  exactly when no element has the ID, so on the empty list too; it returns without error
  exactly when some element has it.
\<close>

theorem FindQualityGateConditionObservation_first_match:
  "(sub2_ID c = i \<and> (\<forall>x\<in>set pre. sub2_ID x \<noteq> i) \<longrightarrow>
      FindQualityGateConditionObservation i (pre @ c # post) =
        (GenerateQualityGateConditionObservation c, None)) \<and>
   ((FindQualityGateConditionObservation i cs =
       (zeroQualityGateConditionObservation, Some (ErrorNew errConditionNotFound))) =
    (\<forall>x\<in>set cs. sub2_ID x \<noteq> i)) \<and>
   ((snd (FindQualityGateConditionObservation i cs) = None) = (\<exists>x\<in>set cs. sub2_ID x = i)) \<and>
   FindQualityGateConditionObservation i [] =
     (zeroQualityGateConditionObservation, Some (ErrorNew errConditionNotFound))"
proof -
  have first: "sub2_ID c = i \<and> (\<forall>x\<in>set pre. sub2_ID x \<noteq> i) \<longrightarrow>
      FindQualityGateConditionObservation i (pre @ c # post) =
        (GenerateQualityGateConditionObservation c, None)"
    by (simp add: Find_skips_prefix)
  have err_iff: "(FindQualityGateConditionObservation i cs =
       (zeroQualityGateConditionObservation, Some (ErrorNew errConditionNotFound))) =
    (\<forall>x\<in>set cs. sub2_ID x \<noteq> i)"
  proof
    assume "FindQualityGateConditionObservation i cs =
       (zeroQualityGateConditionObservation, Some (ErrorNew errConditionNotFound))"
    then have "snd (FindQualityGateConditionObservation i cs) \<noteq> None" by simp
    then show "\<forall>x\<in>set cs. sub2_ID x \<noteq> i" by (rule Find_error_no_match)
  next
    assume "\<forall>x\<in>set cs. sub2_ID x \<noteq> i"
    then show "FindQualityGateConditionObservation i cs =
       (zeroQualityGateConditionObservation, Some (ErrorNew errConditionNotFound))"
      by (rule Find_no_match)
  qed
  have ok_iff:
    "(snd (FindQualityGateConditionObservation i cs) = None) = (\<exists>x\<in>set cs. sub2_ID x = i)"
    using Find_error_no_match [of i cs] Find_no_match [of cs i] by fastforce
  show ?thesis using first err_iff ok_iff by simp
qed

text \<open>
  Two conditions carry the ID 1, after one with the ID 2: the earlier of the two is
  returned. With the ID 3, which none carries, the not-found error is.
\<close>

theorem FindQualityGateConditionObservation_first_match_witness:
  "sub2_ID \<lparr> sub2_Error = ''80'', sub2_ID = ''1'', sub2_Metric = ''coverage'',
             sub2_Op = ''LT'' \<rparr> = ''1'' \<and>
   ''1'' \<notin> sub2_ID ` set [\<lparr> sub2_Error = ''3'', sub2_ID = ''2'',
                            sub2_Metric = ''duplicated_lines_density'', sub2_Op = ''GT'' \<rparr>] \<and>
   FindQualityGateConditionObservation ''1''
       ([\<lparr> sub2_Error = ''3'', sub2_ID = ''2'', sub2_Metric = ''duplicated_lines_density'',
           sub2_Op = ''GT'' \<rparr>]
        @ \<lparr> sub2_Error = ''80'', sub2_ID = ''1'', sub2_Metric = ''coverage'', sub2_Op = ''LT'' \<rparr>
        # [\<lparr> sub2_Error = ''85'', sub2_ID = ''1'', sub2_Metric = ''new_coverage'',
             sub2_Op = ''LT'' \<rparr>]) =
     (\<lparr> qgco_Error = ''80'', qgco_ID = ''1'', qgco_Metric = ''coverage'', qgco_Op = ''LT'' \<rparr>,
      None) \<and>
   FindQualityGateConditionObservation ''3''
       [\<lparr> sub2_Error = ''3'', sub2_ID = ''2'', sub2_Metric = ''duplicated_lines_density'',
          sub2_Op = ''GT'' \<rparr>,
        \<lparr> sub2_Error = ''80'', sub2_ID = ''1'', sub2_Metric = ''coverage'', sub2_Op = ''LT'' \<rparr>] =
     (zeroQualityGateConditionObservation, Some (ErrorNew errConditionNotFound))"
  using FindQualityGateConditionObservation_first_match
          [of "\<lparr> sub2_Error = ''80'', sub2_ID = ''1'', sub2_Metric = ''coverage'',
                 sub2_Op = ''LT'' \<rparr>"
              "''1''"
              "[\<lparr> sub2_Error = ''3'', sub2_ID = ''2'',
                  sub2_Metric = ''duplicated_lines_density'', sub2_Op = ''GT'' \<rparr>]"
              "[\<lparr> sub2_Error = ''85'', sub2_ID = ''1'', sub2_Metric = ''new_coverage'',
                  sub2_Op = ''LT'' \<rparr>]"
              "[]"]
        FindQualityGateConditionObservation_first_match
          [of "\<lparr> sub2_Error = ''80'', sub2_ID = ''1'', sub2_Metric = ''coverage'',
                 sub2_Op = ''LT'' \<rparr>"
              "''3''" "[]" "[]"
              "[\<lparr> sub2_Error = ''3'', sub2_ID = ''2'',
                  sub2_Metric = ''duplicated_lines_density'', sub2_Op = ''GT'' \<rparr>,
                \<lparr> sub2_Error = ''80'', sub2_ID = ''1'', sub2_Metric = ''coverage'',
                  sub2_Op = ''LT'' \<rparr>]"]
  by (simp add: GenerateQualityGateConditionObservation_def)

end
